theory Spec2Isabelle
  imports Complex_Main
begin

section \<open>The perceptron cell of the neural-network notebook\<close>

text \<open>
  The code cell defines \<^verbatim>\<open>stepFunction\<close>, \<^verbatim>\<open>prediction\<close>, \<^verbatim>\<open>perceptronStep\<close> and
  \<^verbatim>\<open>trainPerceptronAlgorithm\<close>. They work on numpy arrays, which are objects that
  \<^verbatim>\<open>perceptronStep\<close> updates in place, and on the generator behind \<^verbatim>\<open>np.random\<close>, which
  is state of the whole process. Both are made explicit here: a function of the notebook is
  a function from the world before the call to its outcome and the world after it.

  Numbers. The arrays hold float64 values. The model computes with the exact numbers of an
  ordered field \<open>'a\<close> (the rationals in every evaluated example), so rounding and overflow are
  outside it. What float64 adds to the finite numbers and the code can reach, the results
  \<^verbatim>\<open>inf\<close>, \<^verbatim>\<open>-inf\<close> and \<^verbatim>\<open>nan\<close> of a division by zero, is kept in \<open>npfloat\<close>.
\<close>

subsection \<open>Arrays, the store and the generator\<close>

type_synonym addr = nat

text \<open>
  The exceptions the cell can raise: numpy's \<^verbatim>\<open>ValueError\<close> of \<^verbatim>\<open>np.matmul\<close> on operands
  whose shapes do not fit (\<open>ShapeMismatch\<close>), Python's \<^verbatim>\<open>ValueError\<close> of \<^verbatim>\<open>min\<close> and
  \<^verbatim>\<open>max\<close> on an empty sequence (\<open>EmptySequence\<close>), and \<^verbatim>\<open>IndexError\<close>
  (\<open>IndexOutOfBounds\<close>).
\<close>

datatype error = ShapeMismatch | EmptySequence | IndexOutOfBounds

text \<open>
  A two-dimensional array of shape \<open>(length rows, ncols)\<close>. The number of columns is a field
  of its own because an array without rows still has one. The data \<^verbatim>\<open>X\<close> and the weights
  \<^verbatim>\<open>W\<close> (shape \<open>(2, 1)\<close> in \<^verbatim>\<open>trainPerceptronAlgorithm\<close>) are such arrays.
\<close>

record 'a array2 =
  ncols :: nat
  rows :: "'a list list"

text \<open>
  A one-dimensional array is either an object of its own (the labels \<^verbatim>\<open>y\<close>) or the view
  \<^verbatim>\<open>A[i]\<close> of a row of a two-dimensional one.
\<close>

datatype ref1 = Whole addr | RowOf addr nat

record ('a, 'g) world =
  arrays2 :: "addr \<Rightarrow> 'a array2"
  arrays1 :: "addr \<Rightarrow> 'a list"
  free2 :: addr
  rng :: 'g

text \<open>The result of a float64 division.\<close>

datatype 'a npfloat = Fin 'a | PosInf | NegInf | NaN

subsection \<open>The numpy and Python operations the cell uses\<close>

fun read1 :: "('a, 'g) world \<Rightarrow> ref1 \<Rightarrow> 'a list" where
  "read1 w (Whole a) = arrays1 w a"
| "read1 w (RowOf a i) = rows (arrays2 w a) ! i"

text \<open>\<^verbatim>\<open>A[i]\<close> on a two-dimensional array: a view of row \<open>i\<close>.\<close>

definition getrow :: "('a, 'g) world \<Rightarrow> addr \<Rightarrow> nat \<Rightarrow> error + ref1" where
  "getrow w a i =
     (if i < length (rows (arrays2 w a)) then Inr (RowOf a i) else Inl IndexOutOfBounds)"

text \<open>\<^verbatim>\<open>v[j]\<close> on a one-dimensional array.\<close>

definition item :: "('a, 'g) world \<Rightarrow> ref1 \<Rightarrow> nat \<Rightarrow> error + 'a" where
  "item w v j =
     (if j < length (read1 w v) then Inr (read1 w v ! j) else Inl IndexOutOfBounds)"

text \<open>
  \<^verbatim>\<open>np.matmul(v, A)\<close> for \<open>v\<close> of shape \<open>(d,)\<close> and \<open>A\<close> of shape \<open>(n, k)\<close>: the vector of
  shape \<open>(k,)\<close> of the products of \<open>v\<close> with the columns of \<open>A\<close>, and a \<^verbatim>\<open>ValueError\<close> unless
  \<open>d = n\<close>.
\<close>

definition matmul :: "'a::linordered_field list \<Rightarrow> 'a array2 \<Rightarrow> error + 'a list" where
  "matmul v A =
     (if length v = length (rows A)
      then Inr (map (\<lambda>j. sum_list (map2 (*) v (map (\<lambda>r. r ! j) (rows A)))) [0..<ncols A])
      else Inl ShapeMismatch)"

text \<open>
  \<^verbatim>\<open>A[i] += c\<close> and \<^verbatim>\<open>A[i] -= c\<close> with a scalar \<open>c\<close>: the operation \<open>f\<close> is applied to every
  entry of row \<open>i\<close>, in the array itself.
\<close>

definition inplace_row ::
  "('a \<Rightarrow> 'a \<Rightarrow> 'a) \<Rightarrow> addr \<Rightarrow> nat \<Rightarrow> 'a \<Rightarrow> ('a, 'g) world \<Rightarrow> ('a, 'g) world" where
  "inplace_row f a i c w =
     w\<lparr>arrays2 := (arrays2 w)
          (a := (arrays2 w a)\<lparr>rows := (rows (arrays2 w a))
                   [i := map (\<lambda>z. f z c) (rows (arrays2 w a) ! i)]\<rparr>)\<rparr>"

text \<open>\<^verbatim>\<open>A.T[j]\<close>: column \<open>j\<close> of a two-dimensional array.\<close>

definition column :: "('a, 'g) world \<Rightarrow> addr \<Rightarrow> nat \<Rightarrow> error + 'a list" where
  "column w a j =
     (if j < ncols (arrays2 w a) then Inr (map (\<lambda>r. r ! j) (rows (arrays2 w a)))
      else Inl IndexOutOfBounds)"

definition py_min :: "'a::linorder list \<Rightarrow> error + 'a" where
  "py_min xs = (case xs of [] \<Rightarrow> Inl EmptySequence | x # r \<Rightarrow> Inr (fold min r x))"

definition py_max :: "'a::linorder list \<Rightarrow> error + 'a" where
  "py_max xs = (case xs of [] \<Rightarrow> Inl EmptySequence | x # r \<Rightarrow> Inr (fold max r x))"

text \<open>A new two-dimensional array, at the next free address.\<close>

definition alloc2 :: "'a array2 \<Rightarrow> ('a, 'g) world \<Rightarrow> addr \<times> ('a, 'g) world" where
  "alloc2 A w =
     (free2 w, w\<lparr>arrays2 := (arrays2 w)(free2 w := A), free2 := Suc (free2 w)\<rparr>)"

text \<open>
  float64 division of finite numbers: a zero divisor gives \<^verbatim>\<open>nan\<close> or an infinity (and
  a warning), never an exception. The model has one zero, so the infinity takes the sign of
  the dividend, as for the divisor \<^verbatim>\<open>+0.0\<close>.
\<close>

definition np_div :: "'a::linordered_field \<Rightarrow> 'a \<Rightarrow> 'a npfloat" where
  "np_div x d =
     (if d = 0 then (if x = 0 then NaN else if 0 < x then PosInf else NegInf)
      else Fin (x / d))"

subsection \<open>The functions of the cell\<close>

text \<open>
  \<^verbatim>\<open>
  def stepFunction(t):
      if t >= 0:
          return 1
      return 0
  \<close>
\<close>

definition stepFunction :: "'a::linordered_field \<Rightarrow> int" where
  "stepFunction t = (if t \<ge> 0 then 1 else 0)"

text \<open>
  \<^verbatim>\<open>
  def prediction(X, W, b):
      return stepFunction((np.matmul(X,W)+b)[0])
  \<close>
  \<open>X\<close> is a one-dimensional array (a row of the data), \<open>W\<close> a two-dimensional one and
  \<open>b\<close> a number, added to every entry of the product.
\<close>

definition prediction ::
  "ref1 \<Rightarrow> addr \<Rightarrow> 'a::linordered_field \<Rightarrow> ('a, 'g) world \<Rightarrow> (error + int) \<times> ('a, 'g) world" where
  "prediction X W b w =
     (case matmul (read1 w X) (arrays2 w W) of
        Inl e \<Rightarrow> (Inl e, w)
      | Inr p \<Rightarrow>
          (case map (\<lambda>z. z + b) p of
             [] \<Rightarrow> (Inl IndexOutOfBounds, w)
           | t # _ \<Rightarrow> (Inr (stepFunction t), w)))"

text \<open>
  The statement \<^verbatim>\<open>W[r] += X[i][j]*learn_rate\<close> (and the one with \<^verbatim>\<open>-=\<close>), where \<open>x\<close> is
  the view \<^verbatim>\<open>X[i]\<close>: Python reads \<^verbatim>\<open>W[r]\<close>, then evaluates the right-hand side, then
  updates the row in place.
\<close>

definition aug_assign ::
  "('a \<Rightarrow> 'a \<Rightarrow> 'a) \<Rightarrow> addr \<Rightarrow> nat \<Rightarrow> ref1 \<Rightarrow> nat \<Rightarrow> 'a::linordered_field \<Rightarrow> ('a, 'g) world
     \<Rightarrow> error + ('a, 'g) world" where
  "aug_assign f W r x j learn_rate w =
     (case getrow w W r of
        Inl e \<Rightarrow> Inl e
      | Inr _ \<Rightarrow>
          (case item w x j of
             Inl e \<Rightarrow> Inl e
           | Inr v \<Rightarrow> Inr (inplace_row f W r (v * learn_rate) w)))"

text \<open>
  The three statements of a branch of \<^verbatim>\<open>perceptronStep\<close>,
  \<^verbatim>\<open>W[0] += X[i][0]*learn_rate; W[1] += X[i][1]*learn_rate; b += learn_rate\<close>
  with \<open>f\<close> the addition, and the same with \<^verbatim>\<open>-=\<close> and \<open>f\<close> the subtraction. An exception
  in the second statement leaves the first one done.
\<close>

definition update ::
  "('a \<Rightarrow> 'a \<Rightarrow> 'a) \<Rightarrow> addr \<Rightarrow> ref1 \<Rightarrow> 'a::linordered_field \<Rightarrow> 'a \<Rightarrow> ('a, 'g) world
     \<Rightarrow> (error + 'a) \<times> ('a, 'g) world" where
  "update f W x learn_rate b w =
     (case aug_assign f W 0 x 0 learn_rate w of
        Inl e \<Rightarrow> (Inl e, w)
      | Inr w2 \<Rightarrow>
          (case aug_assign f W 1 x 1 learn_rate w2 of
             Inl e \<Rightarrow> (Inl e, w2)
           | Inr w3 \<Rightarrow> (Inr (f b learn_rate), w3)))"

text \<open>
  \<^verbatim>\<open>
  def perceptronStep(X, y, W, b, learn_rate = 0.01):
      for i in range(len(X)):
          y_hat = prediction(X[i],W,b)
          if y[i]-y_hat == 1:
              W[0] += X[i][0]*learn_rate
              W[1] += X[i][1]*learn_rate
              b += learn_rate
          elif y[i]-y_hat == -1:
              W[0] -= X[i][0]*learn_rate
              W[1] -= X[i][1]*learn_rate
              b -= learn_rate
      return W, b
  \<close>
  \<open>step_body\<close> is the body of the loop at index \<open>i\<close>: from the current \<open>b\<close> and world to the
  next ones, or to the exception raised and the world it leaves behind.
\<close>

definition step_body ::
  "addr \<Rightarrow> addr \<Rightarrow> addr \<Rightarrow> 'a::linordered_field \<Rightarrow> nat \<Rightarrow> 'a \<times> ('a, 'g) world
     \<Rightarrow> (error + 'a) \<times> ('a, 'g) world" where
  "step_body X y W learn_rate i s =
     (case s of (b, w) \<Rightarrow>
      (case getrow w X i of
         Inl e \<Rightarrow> (Inl e, w)
       | Inr x \<Rightarrow>
      (case prediction x W b w of
         (Inl e, w1) \<Rightarrow> (Inl e, w1)
       | (Inr y_hat, w1) \<Rightarrow>
      (case item w1 (Whole y) i of
         Inl e \<Rightarrow> (Inl e, w1)
       | Inr yi \<Rightarrow>
           if yi - of_int y_hat = 1 then update (+) W x learn_rate b w1
           else if yi - of_int y_hat = - 1 then update (-) W x learn_rate b w1
           else (Inr b, w1)))))"

fun step_loop ::
  "addr \<Rightarrow> addr \<Rightarrow> addr \<Rightarrow> 'a::linordered_field \<Rightarrow> nat list \<Rightarrow> 'a \<times> ('a, 'g) world
     \<Rightarrow> (error + 'a) \<times> ('a, 'g) world" where
  "step_loop X y W learn_rate [] s = (Inr (fst s), snd s)"
| "step_loop X y W learn_rate (i # is) s =
     (case step_body X y W learn_rate i s of
        (Inl e, w') \<Rightarrow> (Inl e, w')
      | (Inr b', w') \<Rightarrow> step_loop X y W learn_rate is (b', w'))"

definition perceptronStep ::
  "addr \<Rightarrow> addr \<Rightarrow> addr \<Rightarrow> 'a::linordered_field \<Rightarrow> 'a \<Rightarrow> ('a, 'g) world
     \<Rightarrow> (error + addr \<times> 'a) \<times> ('a, 'g) world" where
  "perceptronStep X y W b learn_rate w =
     (case step_loop X y W learn_rate [0..<length (rows (arrays2 w X))] (b, w) of
        (Inl e, w') \<Rightarrow> (Inl e, w')
      | (Inr b', w') \<Rightarrow> (Inr (W, b'), w'))"

text \<open>
  \<^verbatim>\<open>
  def trainPerceptronAlgorithm(X, y, learn_rate = 0.01, num_epochs = 25):
      x_min, x_max = min(X.T[0]), max(X.T[0])
      y_min, y_max = min(X.T[1]), max(X.T[1])
      W = np.array(np.random.rand(2,1))
      b = np.random.rand(1)[0] + x_max
      boundary_lines = []
      for i in range(num_epochs):
          W, b = perceptronStep(X, y, W, b, learn_rate)
          boundary_lines.append((-W[0]/W[1], -b/W[1]))
      return boundary_lines
  \<close>
  \<^verbatim>\<open>np.random.rand\<close> belongs to numpy: one draw of the generator is the parameter
  \<open>rand\<close>, from the generator's state to the number drawn and the next state.
  \<^verbatim>\<open>rand(2,1)\<close> draws the two entries in row order, \<^verbatim>\<open>rand(1)\<close> one more. Arrays that
  nothing refers to after the statement that made them are not put in the store.

  \<open>train_init\<close> is the part before the loop; it gives the first \<open>W\<close> and \<open>b\<close>.
\<close>

definition train_init ::
  "('g \<Rightarrow> 'a \<times> 'g) \<Rightarrow> addr \<Rightarrow> ('a::linordered_field, 'g) world
     \<Rightarrow> (error + addr \<times> 'a) \<times> ('a, 'g) world" where
  "train_init rand X w =
     (case column w X 0 of Inl e \<Rightarrow> (Inl e, w) | Inr c0 \<Rightarrow>
     (case py_min c0 of Inl e \<Rightarrow> (Inl e, w) | Inr x_min \<Rightarrow>
     (case column w X 0 of Inl e \<Rightarrow> (Inl e, w) | Inr c0' \<Rightarrow>
     (case py_max c0' of Inl e \<Rightarrow> (Inl e, w) | Inr x_max \<Rightarrow>
     (case column w X 1 of Inl e \<Rightarrow> (Inl e, w) | Inr c1 \<Rightarrow>
     (case py_min c1 of Inl e \<Rightarrow> (Inl e, w) | Inr y_min \<Rightarrow>
     (case column w X 1 of Inl e \<Rightarrow> (Inl e, w) | Inr c1' \<Rightarrow>
     (case py_max c1' of Inl e \<Rightarrow> (Inl e, w) | Inr y_max \<Rightarrow>
     (case rand (rng w) of (r0, g1) \<Rightarrow>
     (case rand g1 of (r1, g2) \<Rightarrow>
     (case alloc2 \<lparr>ncols = 1, rows = [[r0], [r1]]\<rparr> (w\<lparr>rng := g2\<rparr>) of (W, w1) \<Rightarrow>
     (case rand (rng w1) of (r2, g3) \<Rightarrow>
        (Inr (W, r2 + x_max), w1\<lparr>rng := g3\<rparr>)))))))))))))"

text \<open>
  The pair \<^verbatim>\<open>(-W[0]/W[1], -b/W[1])\<close>: two new arrays, each as long as a row of \<open>W\<close>.
\<close>

definition boundary_line ::
  "('a::linordered_field, 'g) world \<Rightarrow> addr \<Rightarrow> 'a
     \<Rightarrow> error + 'a npfloat list \<times> 'a npfloat list" where
  "boundary_line w W b =
     (case getrow w W 0 of Inl e \<Rightarrow> Inl e | Inr r0 \<Rightarrow>
     (case getrow w W 1 of Inl e \<Rightarrow> Inl e | Inr r1 \<Rightarrow>
     (case getrow w W 1 of Inl e \<Rightarrow> Inl e | Inr r1' \<Rightarrow>
        Inr (map2 np_div (map uminus (read1 w r0)) (read1 w r1),
             map (np_div (- b)) (read1 w r1')))))"

text \<open>The loop over the epochs, with \<open>n\<close> iterations still to run.\<close>

fun train_loop ::
  "nat \<Rightarrow> addr \<Rightarrow> addr \<Rightarrow> 'a::linordered_field \<Rightarrow> addr \<Rightarrow> 'a
     \<Rightarrow> ('a npfloat list \<times> 'a npfloat list) list \<Rightarrow> ('a, 'g) world
     \<Rightarrow> (error + ('a npfloat list \<times> 'a npfloat list) list) \<times> ('a, 'g) world" where
  "train_loop 0 X y learn_rate W b boundary_lines w = (Inr boundary_lines, w)"
| "train_loop (Suc n) X y learn_rate W b boundary_lines w =
     (case perceptronStep X y W b learn_rate w of
        (Inl e, w') \<Rightarrow> (Inl e, w')
      | (Inr (W', b'), w') \<Rightarrow>
          (case boundary_line w' W' b' of
             Inl e \<Rightarrow> (Inl e, w')
           | Inr l \<Rightarrow> train_loop n X y learn_rate W' b' (boundary_lines @ [l]) w'))"

definition trainPerceptronAlgorithm ::
  "('g \<Rightarrow> 'a \<times> 'g) \<Rightarrow> addr \<Rightarrow> addr \<Rightarrow> 'a::linordered_field \<Rightarrow> int \<Rightarrow> ('a, 'g) world
     \<Rightarrow> (error + ('a npfloat list \<times> 'a npfloat list) list) \<times> ('a, 'g) world" where
  "trainPerceptronAlgorithm rand X y learn_rate num_epochs w =
     (case train_init rand X w of
        (Inl e, w0) \<Rightarrow> (Inl e, w0)
      | (Inr (W, b), w0) \<Rightarrow> train_loop (nat num_epochs) X y learn_rate W b [] w0)"

subsection \<open>Notions used to state the properties\<close>

text \<open>
  \<open>frame W w w'\<close>: from \<open>w\<close> to \<open>w'\<close> nothing has changed but rows 0 and 1 of the array at
  \<open>W\<close>, which has kept its shape.
\<close>

definition frame :: "addr \<Rightarrow> ('a, 'g) world \<Rightarrow> ('a, 'g) world \<Rightarrow> bool" where
  "frame W w w' \<longleftrightarrow>
     arrays1 w' = arrays1 w \<and> rng w' = rng w \<and> free2 w' = free2 w \<and>
     (\<forall>a. a \<noteq> W \<longrightarrow> arrays2 w' a = arrays2 w a) \<and>
     ncols (arrays2 w' W) = ncols (arrays2 w W) \<and>
     length (rows (arrays2 w' W)) = length (rows (arrays2 w W)) \<and>
     (\<forall>i. 2 \<le> i \<longrightarrow> rows (arrays2 w' W) ! i = rows (arrays2 w W) ! i)"

text \<open>
  Two worlds, possibly with generators of different kinds, that hold the same arrays at the
  three addresses a call of \<^verbatim>\<open>perceptronStep\<close> is given.
\<close>

definition agree :: "addr \<Rightarrow> addr \<Rightarrow> addr \<Rightarrow> ('a, 'g) world \<Rightarrow> ('a, 'h) world \<Rightarrow> bool" where
  "agree X y W w1 w2 \<longleftrightarrow>
     arrays2 w1 X = arrays2 w2 X \<and> arrays1 w1 y = arrays1 w2 y \<and> arrays2 w1 W = arrays2 w2 W"

text \<open>
  A weight vector \<open>ws\<close> as the notebook holds it: the array of shape \<open>(length ws, 1)\<close> whose
  row \<open>i\<close> is \<open>[ws ! i]\<close>.
\<close>

definition column_array :: "'a list \<Rightarrow> 'a array2" where
  "column_array ws = \<lparr>ncols = 1, rows = map (\<lambda>v. [v]) ws\<rparr>"

definition set_array2 :: "addr \<Rightarrow> 'a array2 \<Rightarrow> ('a, 'g) world \<Rightarrow> ('a, 'g) world" where
  "set_array2 a A w = w\<lparr>arrays2 := (arrays2 w)(a := A)\<rparr>"

text \<open>The first \<open>n\<close> numbers a generator yields from state \<open>g\<close>, and the state after them.\<close>

fun draws :: "('g \<Rightarrow> 'a \<times> 'g) \<Rightarrow> nat \<Rightarrow> 'g \<Rightarrow> 'a list \<times> 'g" where
  "draws rand 0 g = ([], g)"
| "draws rand (Suc n) g =
     (case rand g of (r, g') \<Rightarrow> case draws rand n g' of (rs, g'') \<Rightarrow> (r # rs, g''))"

text \<open>\<open>k\<close> calls of \<^verbatim>\<open>perceptronStep\<close> in sequence, each on the result of the one before.\<close>

fun epochs ::
  "nat \<Rightarrow> addr \<Rightarrow> addr \<Rightarrow> addr \<Rightarrow> 'a::linordered_field \<Rightarrow> 'a \<Rightarrow> ('a, 'g) world
     \<Rightarrow> (error + addr \<times> 'a) \<times> ('a, 'g) world" where
  "epochs 0 X y W b learn_rate w = (Inr (W, b), w)"
| "epochs (Suc k) X y W b learn_rate w =
     (case epochs k X y W b learn_rate w of
        (Inl e, w') \<Rightarrow> (Inl e, w')
      | (Inr (W', b'), w') \<Rightarrow> perceptronStep X y W' b' learn_rate w')"

subsection \<open>The operations as the specification words them\<close>

text \<open>
  The specification describes \<open>predict\<close> and \<open>step\<close> on plain vectors: a dataset is a
  sequence of (point, label) pairs, the weights a vector as long as a point. These
  definitions follow its sentences, with the update applied to every dimension; they are
  what the code is compared with.
\<close>

definition spec_predict :: "'a::linordered_field list \<Rightarrow> 'a list \<Rightarrow> 'a \<Rightarrow> int" where
  "spec_predict point weights bias =
     (if sum_list (map2 (*) point weights) + bias \<ge> 0 then 1 else 0)"

definition spec_update ::
  "'a::linordered_field \<Rightarrow> 'a list \<times> 'a \<Rightarrow> 'a list \<times> 'a \<Rightarrow> 'a list \<times> 'a" where
  "spec_update learning_rate pair s =
     (case pair of (point, label) \<Rightarrow> case s of (weights, bias) \<Rightarrow>
        let predicted = spec_predict point weights bias in
        if label - of_int predicted = 1
        then (map2 (\<lambda>wi pi. wi + pi * learning_rate) weights point, bias + learning_rate)
        else if label - of_int predicted = - 1
        then (map2 (\<lambda>wi pi. wi - pi * learning_rate) weights point, bias - learning_rate)
        else (weights, bias))"

definition spec_step ::
  "('a::linordered_field list \<times> 'a) list \<Rightarrow> 'a list \<Rightarrow> 'a \<Rightarrow> 'a \<Rightarrow> 'a list \<times> 'a" where
  "spec_step dataset weights bias learning_rate =
     fold (spec_update learning_rate) dataset (weights, bias)"

definition spec_epoch ::
  "('a::linordered_field list \<times> 'a) list \<Rightarrow> 'a \<Rightarrow> 'a list \<times> 'a \<Rightarrow> 'a list \<times> 'a" where
  "spec_epoch dataset learning_rate s = spec_step dataset (fst s) (snd s) learning_rate"

definition spec_line :: "'a::linordered_field list \<times> 'a \<Rightarrow> 'a npfloat list \<times> 'a npfloat list" where
  "spec_line s = ([np_div (- (fst s ! 0)) (fst s ! 1)], [np_div (- snd s) (fst s ! 1)])"

subsection \<open>Concrete worlds\<close>

text \<open>
  A world with the data at address 0 of the two-dimensional arrays, the labels at address 0
  of the one-dimensional ones, and nothing else.
\<close>

definition data_world :: "'a array2 \<Rightarrow> 'a list \<Rightarrow> 'g \<Rightarrow> ('a, 'g) world" where
  "data_world X y g =
     \<lparr>arrays2 = (\<lambda>_. \<lparr>ncols = 0, rows = []\<rparr>)(0 := X), arrays1 = (\<lambda>_. [])(0 := y),
      free2 = 1, rng = g\<rparr>"

text \<open>The same with a weights array, at address 1.\<close>

definition example_world :: "'a array2 \<Rightarrow> 'a list \<Rightarrow> 'a array2 \<Rightarrow> 'g \<Rightarrow> ('a, 'g) world" where
  "example_world X y W g = snd (alloc2 W (data_world X y g))"

text \<open>A generator that yields the numbers of a given list, one after the other.\<close>

definition replay :: "'a::zero list \<Rightarrow> 'a \<times> 'a list" where
  "replay g = (case g of [] \<Rightarrow> (0, []) | r # g' \<Rightarrow> (r, g'))"

text \<open>
  The scenario of the specification: the points \<open>(1, 1)\<close> with label 1 and \<open>(-1, -1)\<close> with
  label 0, weights \<open>(0, 0)\<close>; the call is made with bias 0 and learning rate \<open>1/10\<close>.
\<close>

definition scenario :: "(rat, unit) world" where
  "scenario =
     example_world \<lparr>ncols = 2, rows = [[1, 1], [- 1, - 1]]\<rparr> [1, 0] (column_array [0, 0]) ()"

text \<open>
  One point with three coordinates, label 1, and weights \<open>(0, 0, -1)\<close>, which with bias 0
  classify it as 0.
\<close>

definition three_dims :: "(rat, unit) world" where
  "three_dims =
     example_world \<lparr>ncols = 3, rows = [[1, 1, 1]]\<rparr> [1] (column_array [0, 0, - 1]) ()"

text \<open>Two points that the weights \<open>(1, 1)\<close> and bias 0 classify as they are labelled.\<close>

definition separated :: "(rat, unit) world" where
  "separated =
     example_world \<lparr>ncols = 2, rows = [[1, 1], [- 1, - 1]]\<rparr> [1, 0] (column_array [1, 1]) ()"

text \<open>
  One point \<open>(2, 1)\<close> with label 0 and a generator about to yield \<open>1/2\<close> three times: with
  learning rate \<open>1/2\<close> the second weight is 0 after the first epoch.
\<close>

definition zero_weight :: "(rat, rat list) world" where
  "zero_weight = data_world \<lparr>ncols = 2, rows = [[2, 1]]\<rparr> [0] [1/2, 1/2, 1/2]"

text \<open>The same generator and labels with the point \<open>(1, 1)\<close>.\<close>

definition other_data :: "(rat, rat list) world" where
  "other_data = data_world \<lparr>ncols = 2, rows = [[1, 1]]\<rparr> [0] [1/2, 1/2, 1/2]"

text \<open>A dataset without points: the array of shape \<open>(0, 2)\<close> and no labels.\<close>

definition no_data :: "(rat, rat list) world" where
  "no_data = data_world \<lparr>ncols = 2, rows = []\<rparr> [] [1/2, 1/2, 1/2]"

text \<open>Points with three coordinates given to the training function.\<close>

definition wide_data :: "(rat, rat list) world" where
  "wide_data = data_world \<lparr>ncols = 3, rows = [[1, 1, 1]]\<rparr> [1] [1/2, 1/2, 1/2]"

text \<open>
  The scenario again, in a world with another generator and one more array, at address 5.
\<close>

definition scenario_elsewhere :: "(rat, rat list) world" where
  "scenario_elsewhere =
     set_array2 5 (column_array [7])
       (example_world \<lparr>ncols = 2, rows = [[1, 1], [- 1, - 1]]\<rparr> [1, 0] (column_array [0, 0])
          [1/2, 1/3])"

text \<open>The scenario with a weight vector of three entries for its points of two.\<close>

definition wide_weights :: "(rat, unit) world" where
  "wide_weights =
     example_world \<lparr>ncols = 2, rows = [[1, 1], [- 1, - 1]]\<rparr> [1, 0] (column_array [0, 0, 0]) ()"


section \<open>Properties\<close>

subsection \<open>What a step can change\<close>

lemma frame_refl: "frame W w w"
  by (simp add: frame_def)

lemma frame_trans: "frame W w w1 \<Longrightarrow> frame W w1 w2 \<Longrightarrow> frame W w w2"
  by (simp add: frame_def)

lemma inplace_row_frame: "r < 2 \<Longrightarrow> frame W w (inplace_row f W r c w)"
  by (simp add: frame_def inplace_row_def)

lemma aug_assign_frame:
  "r < 2 \<Longrightarrow> aug_assign f W r x j lr w = Inr w' \<Longrightarrow> frame W w w'"
  by (auto simp: aug_assign_def inplace_row_frame split: sum.splits)

lemma prediction_world: "snd (prediction X W b w) = w"
  by (simp add: prediction_def split: sum.splits list.splits)

lemma prediction_worldD: "prediction X W b w = (r, w1) \<Longrightarrow> w1 = w"
  using prediction_world [of X W b w] by simp

lemma update_frame: "frame W w (snd (update f W x lr b w))"
proof (cases "aug_assign f W 0 x 0 lr w")
  case (Inl e)
  then show ?thesis by (simp add: update_def frame_refl)
next
  case w2: (Inr w2)
  have f1: "frame W w w2" by (rule aug_assign_frame [OF _ w2]) simp
  show ?thesis
  proof (cases "aug_assign f W 1 x 1 lr w2")
    case (Inl e)
    with w2 f1 show ?thesis by (simp add: update_def)
  next
    case (Inr w3)
    have "frame W w2 w3" by (rule aug_assign_frame [OF _ Inr]) simp
    with f1 have "frame W w w3" by (rule frame_trans)
    with w2 Inr show ?thesis by (simp add: update_def)
  qed
qed

lemma step_body_frame: "frame W (snd s) (snd (step_body X y W lr i s))"
proof (cases s)
  case (Pair b w)
  show ?thesis
    unfolding Pair step_body_def
    by (auto simp: frame_refl update_frame split: sum.splits prod.splits
          dest!: prediction_worldD)
qed

lemma step_loop_frame: "frame W (snd s) (snd (step_loop X y W lr is s))"
proof (induction "is" arbitrary: s)
  case Nil
  show ?case by (simp add: frame_refl)
next
  case (Cons i "is")
  show ?case
  proof (cases "step_body X y W lr i s")
    case (Pair r w')
    have f1: "frame W (snd s) w'" using step_body_frame [of W s X y lr i] Pair by simp
    show ?thesis
    proof (cases r)
      case (Inl e)
      with Pair f1 show ?thesis by simp
    next
      case (Inr b')
      have "frame W w' (snd (step_loop X y W lr is (b', w')))"
        using Cons.IH [of "(b', w')"] by simp
      with f1 Pair Inr show ?thesis by (auto intro: frame_trans)
    qed
  qed
qed

lemma perceptronStep_frame: "frame W w (snd (perceptronStep X y W b lr w))"
proof (cases "step_loop X y W lr [0..<length (rows (arrays2 w X))] (b, w)")
  case (Pair r w')
  with step_loop_frame [of W "(b, w)" X y lr "[0..<length (rows (arrays2 w X))]"]
  show ?thesis by (cases r) (simp_all add: perceptronStep_def)
qed

subsection \<open>Two worlds that agree on the arguments\<close>

lemma agree_getrow: "agree X y W w1 w2 \<Longrightarrow> getrow w1 X i = getrow w2 X i"
  and agree_getrow_W: "agree X y W w1 w2 \<Longrightarrow> getrow w1 W i = getrow w2 W i"
  by (simp_all add: agree_def getrow_def)

lemma agree_read1: "agree X y W w1 w2 \<Longrightarrow> read1 w1 (RowOf X i) = read1 w2 (RowOf X i)"
  and agree_read1_y: "agree X y W w1 w2 \<Longrightarrow> read1 w1 (Whole y) = read1 w2 (Whole y)"
  by (simp_all add: agree_def)

lemma agree_item:
  "agree X y W w1 w2 \<Longrightarrow> item w1 (RowOf X i) j = item w2 (RowOf X i) j"
  "agree X y W w1 w2 \<Longrightarrow> item w1 (Whole y) j = item w2 (Whole y) j"
  by (simp_all add: agree_def item_def)

lemma agree_prediction:
  "agree X y W w1 w2 \<Longrightarrow>
     fst (prediction (RowOf X i) W b w1) = fst (prediction (RowOf X i) W b w2)"
  by (simp add: agree_def prediction_def split: sum.splits list.splits)

lemma agree_inplace_row:
  "agree X y W w1 w2 \<Longrightarrow> agree X y W (inplace_row f W r c w1) (inplace_row f W r c w2)"
  by (simp add: agree_def inplace_row_def)

lemma agree_aug_assign:
  assumes "agree X y W w1 w2"
  shows "(case aug_assign f W r (RowOf X i) j lr w1 of
            Inl e \<Rightarrow> aug_assign f W r (RowOf X i) j lr w2 = Inl e
          | Inr w1' \<Rightarrow> (\<exists>w2'. aug_assign f W r (RowOf X i) j lr w2 = Inr w2' \<and> agree X y W w1' w2'))"
  using agree_getrow_W [OF assms, of r] agree_item(1) [OF assms, of i j] agree_inplace_row [OF assms]
  by (auto simp: aug_assign_def split: sum.splits)

lemma agree_update:
  assumes "agree X y W w1 w2"
  shows "fst (update f W (RowOf X i) lr b w1) = fst (update f W (RowOf X i) lr b w2) \<and>
         agree X y W (snd (update f W (RowOf X i) lr b w1)) (snd (update f W (RowOf X i) lr b w2))"
proof (cases "aug_assign f W 0 (RowOf X i) 0 lr w1")
  case (Inl e)
  with agree_aug_assign [OF assms, of f 0 i 0 lr] assms show ?thesis
    by (simp add: update_def)
next
  case (Inr w1')
  with agree_aug_assign [OF assms, of f 0 i 0 lr]
  obtain w2' where w2': "aug_assign f W 0 (RowOf X i) 0 lr w2 = Inr w2'" and a: "agree X y W w1' w2'"
    by auto
  show ?thesis
  proof (cases "aug_assign f W 1 (RowOf X i) 1 lr w1'")
    case (Inl e)
    with agree_aug_assign [OF a, of f 1 i 1 lr] a Inr w2' show ?thesis
      by (simp add: update_def)
  next
    case w: (Inr w1'')
    with agree_aug_assign [OF a, of f 1 i 1 lr]
    obtain w2'' where "aug_assign f W 1 (RowOf X i) 1 lr w2' = Inr w2''" "agree X y W w1'' w2''"
      by auto
    with Inr w2' w show ?thesis by (simp add: update_def)
  qed
qed

lemma agree_step_body:
  assumes "agree X y W w1 w2"
  shows "fst (step_body X y W lr i (b, w1)) = fst (step_body X y W lr i (b, w2)) \<and>
         agree X y W (snd (step_body X y W lr i (b, w1))) (snd (step_body X y W lr i (b, w2)))"
proof (cases "getrow w1 X i")
  case (Inl e)
  moreover have "getrow w2 X i = Inl e" using agree_getrow [OF assms, of i] Inl by simp
  ultimately show ?thesis using assms by (simp add: step_body_def)
next
  case (Inr x)
  then have x: "x = RowOf X i" by (simp add: getrow_def split: if_splits)
  have g2: "getrow w2 X i = Inr (RowOf X i)" using agree_getrow [OF assms, of i] Inr x by simp
  obtain r where p1: "prediction (RowOf X i) W b w1 = (r, w1)"
    using prediction_world [of "RowOf X i" W b w1] by (cases "prediction (RowOf X i) W b w1") auto
  have p2: "prediction (RowOf X i) W b w2 = (r, w2)"
    using agree_prediction [OF assms, of i b] p1 prediction_world [of "RowOf X i" W b w2]
    by (cases "prediction (RowOf X i) W b w2") auto
  show ?thesis
  proof (cases r)
    case (Inl e)
    with Inr x g2 p1 p2 assms show ?thesis by (simp add: step_body_def)
  next
    case y_hat: (Inr y_hat)
    show ?thesis
    proof (cases "item w1 (Whole y) i")
      case (Inl e)
      moreover have "item w2 (Whole y) i = Inl e" using agree_item(2) [OF assms, of i] Inl by simp
      ultimately show ?thesis using Inr x g2 p1 p2 y_hat assms
        by (simp add: step_body_def)
    next
      case yi: (Inr yi)
      moreover have "item w2 (Whole y) i = Inr yi" using agree_item(2) [OF assms, of i] yi by simp
      ultimately show ?thesis using Inr x g2 p1 p2 y_hat assms
        agree_update [OF assms, of "(+)" i lr b] agree_update [OF assms, of "(-)" i lr b]
        by (simp add: step_body_def)
    qed
  qed
qed

lemma agree_step_loop:
  assumes "agree X y W w1 w2"
  shows "fst (step_loop X y W lr is (b, w1)) = fst (step_loop X y W lr is (b, w2)) \<and>
         agree X y W (snd (step_loop X y W lr is (b, w1))) (snd (step_loop X y W lr is (b, w2)))"
  using assms
proof (induction "is" arbitrary: b w1 w2)
  case Nil
  then show ?case by simp
next
  case (Cons i "is")
  obtain r1 v1 where s1: "step_body X y W lr i (b, w1) = (r1, v1)" by (cases "step_body X y W lr i (b, w1)")
  obtain r2 v2 where s2: "step_body X y W lr i (b, w2) = (r2, v2)" by (cases "step_body X y W lr i (b, w2)")
  from agree_step_body [OF Cons.prems, of lr i b] s1 s2
  have r: "r2 = r1" and a: "agree X y W v1 v2" by simp_all
  show ?case
  proof (cases r1)
    case (Inl e)
    with s1 s2 r a show ?thesis by simp
  next
    case (Inr b')
    with s1 s2 r Cons.IH [OF a, of b'] show ?thesis by simp
  qed
qed

lemma agree_perceptronStep:
  assumes "agree X y W w1 w2"
  shows "fst (perceptronStep X y W b lr w1) = fst (perceptronStep X y W b lr w2) \<and>
         agree X y W (snd (perceptronStep X y W b lr w1)) (snd (perceptronStep X y W b lr w2))"
proof -
  have len: "length (rows (arrays2 w1 X)) = length (rows (arrays2 w2 X))"
    using assms by (simp add: agree_def)
  let ?is = "[0..<length (rows (arrays2 w2 X))]"
  obtain r1 v1 where s1: "step_loop X y W lr ?is (b, w1) = (r1, v1)" by (cases "step_loop X y W lr ?is (b, w1)")
  obtain r2 v2 where s2: "step_loop X y W lr ?is (b, w2) = (r2, v2)" by (cases "step_loop X y W lr ?is (b, w2)")
  from agree_step_loop [OF assms, of lr ?is b] s1 s2
  have "r2 = r1" "agree X y W v1 v2" by simp_all
  with s1 s2 len show ?thesis
    by (cases r1) (simp_all add: perceptronStep_def)
qed

subsection \<open>The loop body on two-dimensional points\<close>

lemma set_array2_same [simp]: "arrays2 w a = A \<Longrightarrow> set_array2 a A w = w"
  by (auto simp: set_array2_def)

lemma set_array2_twice [simp]: "set_array2 a A (set_array2 a B w) = set_array2 a A w"
  by (simp add: set_array2_def)

lemma set_array2_sel [simp]:
  "arrays2 (set_array2 a A w) = (arrays2 w)(a := A)"
  "arrays1 (set_array2 a A w) = arrays1 w"
  "rng (set_array2 a A w) = rng w"
  "free2 (set_array2 a A w) = free2 w"
  by (simp_all add: set_array2_def)

lemma column_of_column_array: "map (\<lambda>r. r ! 0) (rows (column_array ws)) = ws"
  by (simp add: column_array_def comp_def)

lemma prediction_column:
  assumes "arrays2 w W = column_array ws" "length (read1 w X) = length ws"
  shows "prediction X W b w = (Inr (spec_predict (read1 w X) ws b), w)"
proof -
  have "matmul (read1 w X) (arrays2 w W) = Inr [sum_list (map2 (*) (read1 w X) ws)]"
    using assms column_of_column_array [of ws]
    by (simp add: matmul_def) (simp add: column_array_def)
  then show ?thesis
    by (simp add: prediction_def spec_predict_def stepFunction_def)
qed

lemma prediction_mismatch:
  "length (read1 w X) \<noteq> length (rows (arrays2 w W)) \<Longrightarrow>
     prediction X W b w = (Inl ShapeMismatch, w)"
  by (simp add: prediction_def matmul_def)

lemma update_2d:
  assumes "X \<noteq> W" "i < length (rows (arrays2 w X))" "rows (arrays2 w X) ! i = [x0, x1]"
    and "arrays2 w W = column_array [w0, w1]"
  shows "update f W (RowOf X i) lr b w =
           (Inr (f b lr), set_array2 W (column_array [f w0 (x0 * lr), f w1 (x1 * lr)]) w)"
  using assms
  by (simp add: update_def aug_assign_def getrow_def item_def inplace_row_def
        column_array_def set_array2_def)

lemma step_body_2d:
  assumes "X \<noteq> W" "i < length (rows (arrays2 w X))" "length (rows (arrays2 w X) ! i) = 2"
    and "arrays2 w W = column_array ws" "length ws = 2" "i < length (arrays1 w y)"
  shows "step_body X y W lr i (b, w) =
           (Inr (snd (spec_update lr (rows (arrays2 w X) ! i, arrays1 w y ! i) (ws, b))),
            set_array2 W (column_array
              (fst (spec_update lr (rows (arrays2 w X) ! i, arrays1 w y ! i) (ws, b)))) w)"
proof -
  obtain x0 x1 where x: "rows (arrays2 w X) ! i = [x0, x1]"
    using assms(3) by (auto simp: length_Suc_conv numeral_2_eq_2)
  obtain w0 w1 where ws: "ws = [w0, w1]"
    using assms(5) by (auto simp: length_Suc_conv numeral_2_eq_2)
  have p: "prediction (RowOf X i) W b w = (Inr (spec_predict [x0, x1] [w0, w1] b), w)"
    using prediction_column [of w W ws "RowOf X i" b] assms(4) x ws by simp
  show ?thesis
    using assms(1,2,4,6) x ws p update_2d [OF assms(1,2) x, of w0 w1]
    by (simp add: step_body_def getrow_def item_def spec_update_def Let_def)
qed

subsection \<open>The loop\<close>

lemma spec_update_length:
  "length point = 2 \<Longrightarrow> length ws = 2 \<Longrightarrow> length (fst (spec_update lr (point, label) (ws, b))) = 2"
  by (simp add: spec_update_def Let_def)

lemma step_loop_2d:
  assumes "X \<noteq> W" "arrays2 w X = A" "arrays1 w y = ys"
    and "\<forall>i\<in>set is. i < length (rows A) \<and> length (rows A ! i) = 2 \<and> i < length ys"
    and "arrays2 w W = column_array ws" "length ws = 2"
  shows "step_loop X y W lr is (b, w) =
           (Inr (snd (fold (spec_update lr) (map (\<lambda>i. (rows A ! i, ys ! i)) is) (ws, b))),
            set_array2 W (column_array
              (fst (fold (spec_update lr) (map (\<lambda>i. (rows A ! i, ys ! i)) is) (ws, b)))) w) \<and>
         length (fst (fold (spec_update lr) (map (\<lambda>i. (rows A ! i, ys ! i)) is) (ws, b))) = 2"
  using assms
proof (induction "is" arbitrary: ws b w)
  case Nil
  then show ?case by simp
next
  case (Cons i "is")
  let ?u = "spec_update lr (rows A ! i, ys ! i) (ws, b)"
  let ?w = "set_array2 W (column_array (fst ?u)) w"
  have i: "i < length (rows A)" "length (rows A ! i) = 2" "i < length ys"
    using Cons.prems(4) by simp_all
  have body: "step_body X y W lr i (b, w) = (Inr (snd ?u), ?w)"
    using step_body_2d [of X W i w ws y lr b] Cons.prems i by simp
  have len: "length (fst ?u) = 2"
    using spec_update_length [OF i(2) Cons.prems(6)] by simp
  have "step_loop X y W lr is (snd ?u, ?w) =
           (Inr (snd (fold (spec_update lr) (map (\<lambda>i. (rows A ! i, ys ! i)) is) (fst ?u, snd ?u))),
            set_array2 W (column_array
              (fst (fold (spec_update lr) (map (\<lambda>i. (rows A ! i, ys ! i)) is) (fst ?u, snd ?u)))) ?w) \<and>
         length (fst (fold (spec_update lr) (map (\<lambda>i. (rows A ! i, ys ! i)) is) (fst ?u, snd ?u))) = 2"
  proof (rule Cons.IH)
    show "X \<noteq> W" by fact
    show "arrays2 ?w X = A" using Cons.prems(1,2) by simp
    show "arrays1 ?w y = ys" using Cons.prems(3) by simp
    show "\<forall>i\<in>set is. i < length (rows A) \<and> length (rows A ! i) = 2 \<and> i < length ys"
      using Cons.prems(4) by simp
    show "arrays2 ?w W = column_array (fst ?u)" by simp
    show "length (fst ?u) = 2" by (rule len)
  qed
  with body show ?case by simp
qed

lemma zip_as_map_nth:
  "length xs \<le> length ys \<Longrightarrow> map (\<lambda>i. (xs ! i, ys ! i)) [0..<length xs] = zip xs ys"
  by (rule nth_equalityI) simp_all

lemma perceptronStep_2d:
  assumes "X \<noteq> W" "\<forall>r\<in>set (rows (arrays2 w X)). length r = 2"
    and "length (rows (arrays2 w X)) \<le> length (arrays1 w y)"
    and "arrays2 w W = column_array ws" "length ws = 2"
  shows "perceptronStep X y W b lr w =
           (Inr (W, snd (spec_step (zip (rows (arrays2 w X)) (arrays1 w y)) ws b lr)),
            set_array2 W (column_array
              (fst (spec_step (zip (rows (arrays2 w X)) (arrays1 w y)) ws b lr))) w) \<and>
         length (fst (spec_step (zip (rows (arrays2 w X)) (arrays1 w y)) ws b lr)) = 2"
proof -
  let ?A = "arrays2 w X" and ?ys = "arrays1 w y"
  have "\<forall>i\<in>set [0..<length (rows ?A)].
          i < length (rows ?A) \<and> length (rows ?A ! i) = 2 \<and> i < length ?ys"
    using assms(2,3) by auto
  from step_loop_2d [OF assms(1) refl refl this assms(4,5), of lr b]
  show ?thesis
    by (simp add: perceptronStep_def spec_step_def zip_as_map_nth [OF assms(3)])
qed

lemma step_body_fixed:
  assumes "i < length (rows (arrays2 w X))" "i < length (arrays1 w y)"
    and "fst (prediction (RowOf X i) W b w) = Inr p" "arrays1 w y ! i = of_int p"
  shows "step_body X y W lr i (b, w) = (Inr b, w)"
proof -
  have "prediction (RowOf X i) W b w = (Inr p, w)"
    using assms(3) prediction_world [of "RowOf X i" W b w]
    by (cases "prediction (RowOf X i) W b w") simp
  then show ?thesis
    using assms(1,2,4) by (simp add: step_body_def getrow_def item_def)
qed

lemma step_loop_fixed:
  assumes "\<forall>i\<in>set is. i < length (rows (arrays2 w X)) \<and> i < length (arrays1 w y) \<and>
             (\<exists>p. fst (prediction (RowOf X i) W b w) = Inr p \<and> arrays1 w y ! i = of_int p)"
  shows "step_loop X y W lr is (b, w) = (Inr b, w)"
  using assms
proof (induction "is")
  case Nil
  show ?case by simp
next
  case (Cons i "is")
  then obtain p where "i < length (rows (arrays2 w X))" "i < length (arrays1 w y)"
      "fst (prediction (RowOf X i) W b w) = Inr p" "arrays1 w y ! i = of_int p"
    by auto
  then have "step_body X y W lr i (b, w) = (Inr b, w)" by (rule step_body_fixed)
  with Cons show ?case by simp
qed

subsection \<open>Before the loop of the training function\<close>

lemma py_max_Max:
  assumes "xs \<noteq> []"
  shows "py_max xs = Inr (Max (set xs))"
proof (cases xs)
  case Nil
  with assms show ?thesis by simp
next
  case (Cons x r)
  then show ?thesis using Max.set_eq_fold [of x r] by (simp add: py_max_def)
qed

lemma py_min_ok: "xs \<noteq> [] \<Longrightarrow> \<exists>m. py_min xs = Inr m"
  by (cases xs) (simp_all add: py_min_def)

lemma train_init_ok:
  assumes "2 \<le> ncols (arrays2 w X)" "rows (arrays2 w X) \<noteq> []"
  shows "train_init rand X w =
           (Inr (free2 w,
                 fst (draws rand 3 (rng w)) ! 2 + Max (set (map (\<lambda>r. r ! 0) (rows (arrays2 w X))))),
            w\<lparr>arrays2 := (arrays2 w)(free2 w := column_array (take 2 (fst (draws rand 3 (rng w))))),
              free2 := Suc (free2 w), rng := snd (draws rand 3 (rng w))\<rparr>)"
proof -
  let ?c0 = "map (\<lambda>r. r ! 0) (rows (arrays2 w X))" and ?c1 = "map (\<lambda>r. r ! Suc 0) (rows (arrays2 w X))"
  have c: "column w X 0 = Inr ?c0" "column w X 1 = Inr ?c1" "column w X (Suc 0) = Inr ?c1"
    using assms(1) by (simp_all add: column_def)
  have ne: "?c0 \<noteq> []" "?c1 \<noteq> []" using assms(2) by simp_all
  obtain m0 m1 where m: "py_min ?c0 = Inr m0" "py_min ?c1 = Inr m1"
    using py_min_ok [OF ne(1)] py_min_ok [OF ne(2)] by auto
  have mx: "py_max ?c0 = Inr (Max (set ?c0))" "py_max ?c1 = Inr (Max (set ?c1))"
    using py_max_Max [OF ne(1)] py_max_Max [OF ne(2)] by simp_all
  show ?thesis
    by (simp add: train_init_def c m mx alloc2_def column_array_def numeral_3_eq_3
          split: prod.splits)
qed

lemma train_init_errors:
  "ncols (arrays2 w X) = 0 \<Longrightarrow> train_init rand X w = (Inl IndexOutOfBounds, w)"
  "0 < ncols (arrays2 w X) \<Longrightarrow> rows (arrays2 w X) = [] \<Longrightarrow>
     train_init rand X w = (Inl EmptySequence, w)"
  by (simp_all add: train_init_def column_def py_min_def)

lemma boundary_line_column:
  "arrays2 w W = column_array ws \<Longrightarrow> length ws = 2 \<Longrightarrow> boundary_line w W b = Inr (spec_line (ws, b))"
  by (auto simp: boundary_line_def getrow_def column_array_def spec_line_def
        length_Suc_conv numeral_2_eq_2)

subsection \<open>The epochs\<close>

lemma epochs_2d:
  assumes "X \<noteq> W" "\<forall>r\<in>set (rows (arrays2 w X)). length r = 2"
    and "length (rows (arrays2 w X)) \<le> length (arrays1 w y)"
    and "arrays2 w W = column_array ws" "length ws = 2"
    and D: "D = zip (rows (arrays2 w X)) (arrays1 w y)"
  shows "epochs k X y W b lr w =
           (Inr (W, snd ((spec_epoch D lr ^^ k) (ws, b))),
            set_array2 W (column_array (fst ((spec_epoch D lr ^^ k) (ws, b)))) w) \<and>
         length (fst ((spec_epoch D lr ^^ k) (ws, b))) = 2"
proof (induction k)
  case 0
  show ?case using assms(4,5) by simp
next
  case (Suc k)
  let ?s = "(spec_epoch D lr ^^ k) (ws, b)"
  let ?w = "set_array2 W (column_array (fst ?s)) w"
  have X: "arrays2 ?w X = arrays2 w X" using assms(1) by simp
  have "perceptronStep X y W (snd ?s) lr ?w =
           (Inr (W, snd (spec_step (zip (rows (arrays2 ?w X)) (arrays1 ?w y)) (fst ?s) (snd ?s) lr)),
            set_array2 W (column_array
              (fst (spec_step (zip (rows (arrays2 ?w X)) (arrays1 ?w y)) (fst ?s) (snd ?s) lr))) ?w) \<and>
         length (fst (spec_step (zip (rows (arrays2 ?w X)) (arrays1 ?w y)) (fst ?s) (snd ?s) lr)) = 2"
  proof (rule perceptronStep_2d)
    show "X \<noteq> W" by fact
    show "\<forall>r\<in>set (rows (arrays2 ?w X)). length r = 2" using assms(2) X by simp
    show "length (rows (arrays2 ?w X)) \<le> length (arrays1 ?w y)" using assms(3) X by simp
    show "arrays2 ?w W = column_array (fst ?s)" by simp
    show "length (fst ?s) = 2" using Suc.IH by simp
  qed
  moreover have "spec_epoch D lr ?s =
      spec_step (zip (rows (arrays2 w X)) (arrays1 w y)) (fst ?s) (snd ?s) lr"
    by (simp add: spec_epoch_def D)
  ultimately have "perceptronStep X y W (snd ?s) lr ?w =
           (Inr (W, snd (spec_epoch D lr ?s)),
            set_array2 W (column_array (fst (spec_epoch D lr ?s))) w) \<and>
         length (fst (spec_epoch D lr ?s)) = 2"
    using X by simp
  then show ?case
    using Suc.IH by simp
qed

lemma train_loop_2d:
  assumes "X \<noteq> W" "\<forall>r\<in>set (rows (arrays2 w X)). length r = 2"
    and "length (rows (arrays2 w X)) \<le> length (arrays1 w y)"
    and "arrays2 w W = column_array ws" "length ws = 2"
    and D: "D = zip (rows (arrays2 w X)) (arrays1 w y)"
  shows "train_loop n X y lr W b acc w =
           (Inr (acc @ map (\<lambda>k. spec_line ((spec_epoch D lr ^^ Suc k) (ws, b))) [0..<n]),
            set_array2 W (column_array (fst ((spec_epoch D lr ^^ n) (ws, b)))) w)"
  using assms
proof (induction n arbitrary: ws b acc w)
  case 0
  then show ?case by simp
next
  case (Suc n)
  let ?s = "spec_epoch D lr (ws, b)"
  let ?w = "set_array2 W (column_array (fst ?s)) w"
  have "?s = spec_step (zip (rows (arrays2 w X)) (arrays1 w y)) ws b lr"
    by (simp add: spec_epoch_def Suc.prems(6))
  then have step: "perceptronStep X y W b lr w = (Inr (W, snd ?s), ?w)"
    and len: "length (fst ?s) = 2"
    using perceptronStep_2d [OF Suc.prems(1-5), of b lr] by simp_all
  have line: "boundary_line ?w W (snd ?s) = Inr (spec_line ?s)"
    using boundary_line_column [of ?w W "fst ?s" "snd ?s"] len by simp
  have X: "arrays2 ?w X = arrays2 w X" using Suc.prems(1) by simp
  have "train_loop n X y lr W (snd ?s) (acc @ [spec_line ?s]) ?w =
           (Inr ((acc @ [spec_line ?s]) @
                 map (\<lambda>k. spec_line ((spec_epoch D lr ^^ Suc k) (fst ?s, snd ?s))) [0..<n]),
            set_array2 W (column_array (fst ((spec_epoch D lr ^^ n) (fst ?s, snd ?s)))) ?w)"
  proof (rule Suc.IH)
    show "X \<noteq> W" by fact
    show "\<forall>r\<in>set (rows (arrays2 ?w X)). length r = 2" using Suc.prems(2) X by simp
    show "length (rows (arrays2 ?w X)) \<le> length (arrays1 ?w y)" using Suc.prems(3) X by simp
    show "arrays2 ?w W = column_array (fst ?s)" by simp
    show "length (fst ?s) = 2" by (rule len)
    show "D = zip (rows (arrays2 ?w X)) (arrays1 ?w y)" using Suc.prems(6) X by simp
  qed
  moreover have "map (\<lambda>k. spec_line ((spec_epoch D lr ^^ Suc k) (ws, b))) [0..<Suc n] =
      spec_line ?s # map (\<lambda>k. spec_line ((spec_epoch D lr ^^ Suc k) ?s)) [0..<n]"
    by (simp add: map_upt_Suc funpow_swap1 del: upt_Suc)
  ultimately show ?case
    using step line by (simp add: funpow_swap1 del: upt_Suc)
qed

subsection \<open>The training function as a whole\<close>

lemma draws_length: "length (fst (draws rand n g)) = n"
proof (induction n arbitrary: g)
  case 0
  show ?case by simp
next
  case (Suc n)
  obtain r g' where r: "rand g = (r, g')" by (cases "rand g")
  obtain rs g'' where rs: "draws rand n g' = (rs, g'')" by (cases "draws rand n g'")
  from Suc [of g'] rs have "length rs = n" by simp
  with r rs show ?case by simp
qed

lemma perceptronStep_first_mismatch:
  assumes "rows (arrays2 w X) \<noteq> []"
    and "length (rows (arrays2 w X) ! 0) \<noteq> length (rows (arrays2 w W))"
  shows "perceptronStep X y W b lr w = (Inl ShapeMismatch, w)"
proof -
  have n: "0 < length (rows (arrays2 w X))" using assms(1) by simp
  have "prediction (RowOf X 0) W b w = (Inl ShapeMismatch, w)"
    using assms(2) by (simp add: prediction_mismatch)
  then have "step_body X y W lr 0 (b, w) = (Inl ShapeMismatch, w)"
    using n by (simp add: step_body_def getrow_def)
  then show ?thesis
    using n by (simp add: perceptronStep_def upt_conv_Cons)
qed

lemma train_mismatch:
  assumes "X < free2 w" "2 \<le> ncols (arrays2 w X)" "rows (arrays2 w X) \<noteq> []"
    and "length (rows (arrays2 w X) ! 0) \<noteq> 2" "0 < n"
  shows "fst (trainPerceptronAlgorithm rand X y lr n w) = Inl ShapeMismatch"
proof -
  obtain b0 w0 where init: "train_init rand X w = (Inr (free2 w, b0), w0)"
    and w0: "arrays2 w0 X = arrays2 w X" "length (rows (arrays2 w0 (free2 w))) = 2"
    using train_init_ok [OF assms(2,3), of rand] assms(1)
    by (simp add: column_array_def draws_length)
  have "perceptronStep X y (free2 w) b0 lr w0 = (Inl ShapeMismatch, w0)"
    by (rule perceptronStep_first_mismatch) (simp_all add: w0 assms)
  moreover obtain m where "nat n = Suc m" using assms(5) by (cases "nat n") simp_all
  ultimately show ?thesis
    using init by (simp add: trainPerceptronAlgorithm_def)
qed

lemma train_2d:
  assumes "X < free2 w" "ncols (arrays2 w X) = 2" "rows (arrays2 w X) \<noteq> []"
    and "\<forall>r\<in>set (rows (arrays2 w X)). length r = 2"
    and "length (rows (arrays2 w X)) \<le> length (arrays1 w y)"
  obtains W b0 w0 ws0 D where
    "train_init rand X w = (Inr (W, b0), w0)"
    "length ws0 = 2"
    "\<And>n. trainPerceptronAlgorithm rand X y lr n w =
       (Inr (map (\<lambda>k. spec_line ((spec_epoch D lr ^^ Suc k) (ws0, b0))) [0..<nat n]),
        set_array2 W (column_array (fst ((spec_epoch D lr ^^ nat n) (ws0, b0)))) w0)"
    "\<And>k. epochs k X y W b0 lr w0 =
       (Inr (W, snd ((spec_epoch D lr ^^ k) (ws0, b0))),
        set_array2 W (column_array (fst ((spec_epoch D lr ^^ k) (ws0, b0)))) w0)"
    "\<And>k. length (fst ((spec_epoch D lr ^^ k) (ws0, b0))) = 2"
    "arrays2 w0 W = column_array ws0"
proof -
  let ?W = "free2 w"
  let ?ws0 = "take 2 (fst (draws rand 3 (rng w)))"
  let ?D = "zip (rows (arrays2 w X)) (arrays1 w y)"
  obtain b0 w0 where init: "train_init rand X w = (Inr (?W, b0), w0)"
    and X: "arrays2 w0 X = arrays2 w X" and y: "arrays1 w0 = arrays1 w"
    and W: "arrays2 w0 ?W = column_array ?ws0"
    using train_init_ok [of w X rand] assms(1,2,3) by simp
  have len: "length ?ws0 = 2" by (simp add: draws_length)
  have ne: "X \<noteq> ?W" using assms(1) by simp
  have rows: "\<forall>r\<in>set (rows (arrays2 w0 X)). length r = 2" using assms(4) X by simp
  have labels: "length (rows (arrays2 w0 X)) \<le> length (arrays1 w0 y)" using assms(5) X y by simp
  have D: "?D = zip (rows (arrays2 w0 X)) (arrays1 w0 y)" using X y by simp
  show thesis
  proof (rule that [of ?W b0 w0 ?ws0 ?D])
    show "train_init rand X w = (Inr (?W, b0), w0)" by (rule init)
    show "length ?ws0 = 2" by (rule len)
    show "trainPerceptronAlgorithm rand X y lr n w =
       (Inr (map (\<lambda>k. spec_line ((spec_epoch ?D lr ^^ Suc k) (?ws0, b0))) [0..<nat n]),
        set_array2 ?W (column_array (fst ((spec_epoch ?D lr ^^ nat n) (?ws0, b0)))) w0)" for n
      using train_loop_2d [OF ne rows labels W len D, of "nat n" lr b0 "[]"] init
      by (simp add: trainPerceptronAlgorithm_def)
    show "epochs k X y ?W b0 lr w0 =
       (Inr (?W, snd ((spec_epoch ?D lr ^^ k) (?ws0, b0))),
        set_array2 ?W (column_array (fst ((spec_epoch ?D lr ^^ k) (?ws0, b0)))) w0)" for k
      using epochs_2d [OF ne rows labels W len D, of k b0 lr] by simp
    show "length (fst ((spec_epoch ?D lr ^^ k) (?ws0, b0))) = 2" for k
      using epochs_2d [OF ne rows labels W len D, of k b0 lr] by simp
    show "arrays2 w0 ?W = column_array ?ws0" by (rule W)
  qed
qed

lemma spec_line_pair: "spec_line ([u0, u1], b) = ([np_div (- u0) u1], [np_div (- b) u1])"
  by (simp add: spec_line_def)

lemmas world_defs = data_world_def example_world_def alloc2_def column_array_def set_array2_def

lemmas step_defs = perceptronStep_def step_body_def getrow_def prediction_def matmul_def
  item_def update_def aug_assign_def inplace_row_def stepFunction_def upt_rec

lemmas train_defs = trainPerceptronAlgorithm_def train_init_def column_def py_min_def py_max_def
  replay_def boundary_line_def np_div_def

section \<open>The claims\<close>

text \<open>
  Reading of the specification's vocabulary: \<open>predict\<close>, \<open>step\<close> and \<open>train\<close> are
  \<^verbatim>\<open>prediction\<close>, \<^verbatim>\<open>perceptronStep\<close> and \<^verbatim>\<open>trainPerceptronAlgorithm\<close>; the dataset is the
  array \<^verbatim>\<open>X\<close> of the points together with the array \<^verbatim>\<open>y\<close> of their labels; the weight vector
  \<open>ws\<close> is the array \<open>column_array ws\<close>, so that \<open>weights[i]\<close> is row \<open>i\<close> of \<^verbatim>\<open>W\<close>; the seed
  is the state of the generator when \<open>train\<close> is called.
\<close>

subsection \<open>C1: the scenario of the specification\<close>

text \<open>
  The specification expects the call on the scenario to return the weights \<open>(1/10, 1/10)\<close>
  and the bias \<open>1/10\<close>. It does not: both points are predicted 1, the second one has label
  0, so the branch with \<^verbatim>\<open>-=\<close> runs, and \<^verbatim>\<open>b -= learn_rate\<close> takes the bias from 0 down
  to \<open>-1/10\<close>.
\<close>

theorem step_scenario_bias_counterexample:
  "\<not> (fst (perceptronStep 0 0 1 0 (1/10) scenario) = Inr (1, 1/10) \<and>
      arrays2 (snd (perceptronStep 0 0 1 0 (1/10) scenario)) 1 = column_array [1/10, 1/10])"
  by (simp add: scenario_def world_defs step_defs)

text \<open>
  C1, amended. For the dataset \<open>[([1,1], 1), ([-1,-1], 0)]\<close>, weights \<open>[0,0]\<close>, bias 0 and
  learning rate \<open>1/10\<close>, a single call of step returns the weights \<open>[1/10, 1/10]\<close> and the
  bias \<open>-1/10\<close>.
\<close>

theorem step_scenario:
  "fst (perceptronStep 0 0 1 0 (1/10) scenario) = Inr (1, - (1/10)) \<and>
   arrays2 (snd (perceptronStep 0 0 1 0 (1/10) scenario)) 1 = column_array [1/10, 1/10]"
  by (simp add: scenario_def world_defs step_defs)

subsection \<open>C2: the update rule\<close>

text \<open>
  The specification has the update run over every dimension of the point. The code
  assigns \<^verbatim>\<open>W[0]\<close> and \<^verbatim>\<open>W[1]\<close> and nothing else: on a misclassified point with three
  coordinates the third weight stays \<open>-1\<close>, where the rule of the specification gives
  \<open>-1 + 1 * 1/10\<close>.
\<close>

theorem step_third_dimension_counterexample:
  "fst (perceptronStep 0 0 1 0 (1/10) three_dims) = Inr (1, 1/10) \<and>
   arrays2 (snd (perceptronStep 0 0 1 0 (1/10) three_dims)) 1 = column_array [1/10, 1/10, - 1] \<and>
   spec_step [([1, 1, 1], 1)] [0, 0, - 1] 0 (1/10) = ([1/10, 1/10, - (9/10)], 1/10 :: rat)"
  by (simp add: three_dims_def world_defs step_defs spec_step_def spec_update_def spec_predict_def)

text \<open>
  C2, amended. For every dataset of points with two coordinates, each with a label, and
  every weight vector with two entries held in an array of its own, bias and learning rate,
  step returns what the rule of the specification gives when it is applied to the
  (point, label) pairs in dataset order: if label - predicted is 1 it adds
  \<open>point[i] * learning_rate\<close> to \<open>weights[i]\<close> for every dimension \<open>i\<close> and \<open>learning_rate\<close> to the
  bias, if it is -1 it subtracts them, otherwise it changes nothing. And on any input, of
  whatever dimension, where every point is already predicted correctly, step returns the
  weights and the bias unchanged.
\<close>

theorem step_follows_rule:
  "(X \<noteq> W \<and> (\<forall>r\<in>set (rows (arrays2 w X)). length r = 2) \<and>
    length (rows (arrays2 w X)) \<le> length (arrays1 w y) \<and>
    arrays2 w W = column_array ws \<and> length ws = 2 \<longrightarrow>
    perceptronStep X y W b lr w =
      (Inr (W, snd (spec_step (zip (rows (arrays2 w X)) (arrays1 w y)) ws b lr)),
       set_array2 W
         (column_array (fst (spec_step (zip (rows (arrays2 w X)) (arrays1 w y)) ws b lr))) w)) \<and>
   ((\<forall>i<length (rows (arrays2 w X)). i < length (arrays1 w y) \<and>
       (\<exists>p. fst (prediction (RowOf X i) W b w) = Inr p \<and> arrays1 w y ! i - of_int p = 0)) \<longrightarrow>
    perceptronStep X y W b lr w = (Inr (W, b), w))"
proof (intro conjI impI)
  assume "X \<noteq> W \<and> (\<forall>r\<in>set (rows (arrays2 w X)). length r = 2) \<and>
    length (rows (arrays2 w X)) \<le> length (arrays1 w y) \<and>
    arrays2 w W = column_array ws \<and> length ws = 2"
  then show "perceptronStep X y W b lr w =
      (Inr (W, snd (spec_step (zip (rows (arrays2 w X)) (arrays1 w y)) ws b lr)),
       set_array2 W
         (column_array (fst (spec_step (zip (rows (arrays2 w X)) (arrays1 w y)) ws b lr))) w)"
    using perceptronStep_2d [of X W w y ws b lr] by simp
next
  assume "\<forall>i<length (rows (arrays2 w X)). i < length (arrays1 w y) \<and>
       (\<exists>p. fst (prediction (RowOf X i) W b w) = Inr p \<and> arrays1 w y ! i - of_int p = 0)"
  then have "\<forall>i\<in>set [0..<length (rows (arrays2 w X))].
       i < length (rows (arrays2 w X)) \<and> i < length (arrays1 w y) \<and>
       (\<exists>p. fst (prediction (RowOf X i) W b w) = Inr p \<and> arrays1 w y ! i = of_int p)"
    by simp
  then have "step_loop X y W lr [0..<length (rows (arrays2 w X))] (b, w) = (Inr b, w)"
    by (rule step_loop_fixed)
  then show "perceptronStep X y W b lr w = (Inr (W, b), w)"
    by (simp add: perceptronStep_def)
qed

theorem step_follows_rule_witness:
  "perceptronStep 0 0 1 0 (1/10) scenario =
     (Inr (1, snd (spec_step [([1, 1], 1), ([- 1, - 1], 0)] [0, 0] 0 (1/10))),
      set_array2 1
        (column_array (fst (spec_step [([1, 1], 1), ([- 1, - 1], 0)] [0, 0] 0 (1/10)))) scenario) \<and>
   spec_step [([1, 1], 1), ([- 1, - 1], 0)] [0, 0] 0 (1/10) = ([1/10, 1/10], - (1/10) :: rat) \<and>
   perceptronStep 0 0 1 0 (1/10) separated = (Inr (1, 0), separated)"
proof -
  have a: "(0::addr) \<noteq> 1 \<and> (\<forall>r\<in>set (rows (arrays2 scenario 0)). length r = 2) \<and>
    length (rows (arrays2 scenario 0)) \<le> length (arrays1 scenario 0) \<and>
    arrays2 scenario 1 = column_array [0, 0] \<and> length [0, 0 :: rat] = 2"
    by (simp add: scenario_def world_defs)
  have b: "\<forall>i<length (rows (arrays2 separated 0)). i < length (arrays1 separated 0) \<and>
       (\<exists>p. fst (prediction (RowOf 0 i) 1 0 separated) = Inr p \<and>
            arrays1 separated 0 ! i - of_int p = 0)"
    by (simp add: separated_def world_defs prediction_def matmul_def stepFunction_def upt_rec
          less_Suc_eq numeral_2_eq_2)
  have c: "zip (rows (arrays2 scenario 0)) (arrays1 scenario 0) = [([1, 1], 1), ([- 1, - 1], 0)]"
    by (simp add: scenario_def world_defs)
  have d: "spec_step [([1, 1], 1), ([- 1, - 1], 0)] [0, 0] 0 (1/10) = ([1/10, 1/10], - (1/10) :: rat)"
    by (simp add: spec_step_def spec_update_def spec_predict_def)
  from step_follows_rule [of 0 1 scenario 0 "[0, 0]" 0 "1/10"] a c
    step_follows_rule [of 0 1 separated 0 "[1, 1]" 0 "1/10"] b d
  show ?thesis by simp
qed

subsection \<open>C3: a second weight that is zero\<close>

text \<open>
  The specification has the boundary line of an epoch that ends with \<open>weights[1] = 0\<close> fail
  with a division-by-zero error. The code raises nothing and catches nothing: the
  division is numpy's, the line of that epoch is produced like the others, and its
  components are infinite. Here the second weight is 0 after the first of two epochs.
\<close>

theorem zero_weight_line_counterexample:
  "rows (arrays2 (snd (trainPerceptronAlgorithm replay 0 0 (1/2) 1 zero_weight)) 1) ! 1 = [0] \<and>
   fst (trainPerceptronAlgorithm replay 0 0 (1/2) 2 zero_weight) =
     Inr [([PosInf], [NegInf]), ([Fin (- 3)], [Fin 3])]"
  by (simp add: zero_weight_def world_defs train_defs step_defs numeral_2_eq_2)

text \<open>
  C3, amended. On a dataset that is not empty, of points with two coordinates, each with a
  label: if \<open>weights[1]\<close> is exactly 0 at the end of epoch \<open>k + 1\<close>, no error is raised; the
  line of that epoch is produced with both components \<^verbatim>\<open>nan\<close>, \<^verbatim>\<open>inf\<close> or \<^verbatim>\<open>-inf\<close>; train
  returns a line for every epoch, and the weights and bias it ends with are those of
  \<open>num_epochs\<close> steps in sequence.
\<close>

theorem zero_weight_line:
  assumes "X < free2 w" "ncols (arrays2 w X) = 2" "rows (arrays2 w X) \<noteq> []"
    and "\<forall>r\<in>set (rows (arrays2 w X)). length r = 2"
    and "length (rows (arrays2 w X)) \<le> length (arrays1 w y)"
    and "train_init rand X w = (Inr (W, b0), w0)"
    and "k < nat n" "epochs (Suc k) X y W b0 lr w0 = (Inr (W, bk), wk)"
    and "rows (arrays2 wk W) ! 1 = [0]"
  shows "\<exists>lines bn w'.
           trainPerceptronAlgorithm rand X y lr n w = (Inr lines, w') \<and>
           length lines = nat n \<and>
           fst (lines ! k) \<in> {[NaN], [PosInf], [NegInf]} \<and>
           snd (lines ! k) \<in> {[NaN], [PosInf], [NegInf]} \<and>
           epochs (nat n) X y W b0 lr w0 = (Inr (W, bn), w')"
proof -
  from assms(1-5) obtain W' b0' w0' ws0 D where
    init: "train_init rand X w = (Inr (W', b0'), w0')"
    and train: "\<And>n. trainPerceptronAlgorithm rand X y lr n w =
       (Inr (map (\<lambda>k. spec_line ((spec_epoch D lr ^^ Suc k) (ws0, b0'))) [0..<nat n]),
        set_array2 W' (column_array (fst ((spec_epoch D lr ^^ nat n) (ws0, b0')))) w0')"
    and ep: "\<And>k. epochs k X y W' b0' lr w0' =
       (Inr (W', snd ((spec_epoch D lr ^^ k) (ws0, b0'))),
        set_array2 W' (column_array (fst ((spec_epoch D lr ^^ k) (ws0, b0')))) w0')"
    and len: "\<And>k. length (fst ((spec_epoch D lr ^^ k) (ws0, b0'))) = 2"
    by (rule train_2d [of X w y rand lr]) blast
  from init assms(6) have same: "W' = W" "b0' = b0" "w0' = w0" by simp_all
  let ?S = "\<lambda>k. (spec_epoch D lr ^^ k) (ws0, b0)"
  let ?lines = "map (\<lambda>k. spec_line (?S (Suc k))) [0..<nat n]"
  obtain u0 u1 where u: "fst (?S (Suc k)) = [u0, u1]"
    using len [of "Suc k"] same by (auto simp: length_Suc_conv numeral_2_eq_2)
  then have s: "?S (Suc k) = ([u0, u1], snd (?S (Suc k)))"
    by (metis prod.collapse)
  have "wk = set_array2 W (column_array (fst (?S (Suc k)))) w0"
    using ep [of "Suc k"] assms(8) same by simp
  then have "u1 = 0"
    using assms(9) u by (simp add: column_array_def)
  then have "spec_line (?S (Suc k)) =
      ([np_div (- u0) 0], [np_div (- snd (?S (Suc k))) 0])"
    using spec_line_pair [of u0 u1 "snd (?S (Suc k))"] s by simp
  then have "fst (?lines ! k) \<in> {[NaN], [PosInf], [NegInf]} \<and>
      snd (?lines ! k) \<in> {[NaN], [PosInf], [NegInf]}"
    using assms(7) by (simp add: np_div_def)
  then show ?thesis
    using train [of n] ep [of "nat n"] same
    by (intro exI [of _ ?lines] exI [of _ "snd (?S (nat n))"]
          exI [of _ "set_array2 W (column_array (fst (?S (nat n)))) w0"]) simp
qed

theorem zero_weight_line_witness:
  "\<exists>lines bn w'.
     trainPerceptronAlgorithm replay 0 0 (1/2) 2 zero_weight = (Inr lines, w') \<and>
     length lines = 2 \<and>
     fst (lines ! 0) \<in> {[NaN], [PosInf], [NegInf]} \<and>
     snd (lines ! 0) \<in> {[NaN], [PosInf], [NegInf]} \<and>
     epochs 2 0 0 1 (5/2) (1/2) (snd (train_init replay 0 zero_weight)) = (Inr (1, bn), w')"
proof -
  let ?w0 = "snd (train_init replay 0 zero_weight)"
  let ?w1 = "snd (epochs (Suc 0) 0 0 1 (5/2) (1/2) ?w0)"
  have a: "0 < free2 zero_weight" "ncols (arrays2 zero_weight 0) = 2"
    "rows (arrays2 zero_weight 0) \<noteq> []"
    "\<forall>r\<in>set (rows (arrays2 zero_weight 0)). length r = 2"
    "length (rows (arrays2 zero_weight 0)) \<le> length (arrays1 zero_weight 0)"
    by (simp_all add: zero_weight_def world_defs)
  have "fst (train_init replay 0 zero_weight) = Inr (1, 5/2)"
    by (simp add: zero_weight_def world_defs train_defs)
  then have i: "train_init replay 0 zero_weight = (Inr (1, 5/2), ?w0)"
    by (simp add: prod_eq_iff)
  have "fst (epochs (Suc 0) 0 0 1 (5/2) (1/2) ?w0) = Inr (1, 2)"
    by (simp add: zero_weight_def world_defs train_defs step_defs)
  then have e: "epochs (Suc 0) 0 0 1 (5/2) (1/2) ?w0 = (Inr (1, 2), ?w1)"
    by (simp add: prod_eq_iff)
  have z: "rows (arrays2 ?w1 1) ! 1 = [0]"
    by (simp add: zero_weight_def world_defs train_defs step_defs)
  have k: "0 < nat 2" by simp
  from zero_weight_line [OF a i k e z] show ?thesis by simp
qed

subsection \<open>C4: shapes that do not fit\<close>

text \<open>
  C4. predict returns a value, and changes nothing, for every point and weight vector of
  the same length; when the lengths differ it fails with the shape error of
  \<^verbatim>\<open>np.matmul\<close>. The error is not caught: step on a dataset, not empty, whose points do not
  fit the weights fails with it, and so does train, whose weights have two entries, when it
  runs at least one epoch on points with more than two coordinates.
\<close>

theorem prediction_shape_errors:
  "(arrays2 w W = column_array ws \<and> length (read1 w P) = length ws \<longrightarrow>
      (\<exists>p. prediction P W b w = (Inr p, w))) \<and>
   (length (read1 w P) \<noteq> length (rows (arrays2 w W)) \<longrightarrow>
      prediction P W b w = (Inl ShapeMismatch, w)) \<and>
   (rows (arrays2 w X) \<noteq> [] \<and>
    (\<forall>r\<in>set (rows (arrays2 w X)). length r \<noteq> length (rows (arrays2 w W))) \<longrightarrow>
      perceptronStep X y W b lr w = (Inl ShapeMismatch, w)) \<and>
   (X < free2 w \<and> 2 \<le> ncols (arrays2 w X) \<and> rows (arrays2 w X) \<noteq> [] \<and>
    (\<forall>r\<in>set (rows (arrays2 w X)). length r \<noteq> 2) \<and> 0 < n \<longrightarrow>
      fst (trainPerceptronAlgorithm rand X y lr n w) = Inl ShapeMismatch)"
proof (intro conjI impI)
  assume "arrays2 w W = column_array ws \<and> length (read1 w P) = length ws"
  then show "\<exists>p. prediction P W b w = (Inr p, w)"
    using prediction_column [of w W ws P b] by simp
next
  assume "length (read1 w P) \<noteq> length (rows (arrays2 w W))"
  then show "prediction P W b w = (Inl ShapeMismatch, w)" by (rule prediction_mismatch)
next
  assume a: "rows (arrays2 w X) \<noteq> [] \<and>
    (\<forall>r\<in>set (rows (arrays2 w X)). length r \<noteq> length (rows (arrays2 w W)))"
  then have "rows (arrays2 w X) ! 0 \<in> set (rows (arrays2 w X))" by simp
  with a show "perceptronStep X y W b lr w = (Inl ShapeMismatch, w)"
    by (intro perceptronStep_first_mismatch) auto
next
  assume a: "X < free2 w \<and> 2 \<le> ncols (arrays2 w X) \<and> rows (arrays2 w X) \<noteq> [] \<and>
    (\<forall>r\<in>set (rows (arrays2 w X)). length r \<noteq> 2) \<and> 0 < n"
  then have "rows (arrays2 w X) ! 0 \<in> set (rows (arrays2 w X))" by simp
  with a show "fst (trainPerceptronAlgorithm rand X y lr n w) = Inl ShapeMismatch"
    by (intro train_mismatch) auto
qed

theorem prediction_shape_errors_witness:
  "(\<exists>p. prediction (RowOf 0 0) 1 0 scenario = (Inr p, scenario)) \<and>
   prediction (RowOf 0 0) 1 0 wide_weights = (Inl ShapeMismatch, wide_weights) \<and>
   perceptronStep 0 0 1 0 (1/10) wide_weights = (Inl ShapeMismatch, wide_weights) \<and>
   fst (trainPerceptronAlgorithm replay 0 0 (1/10) 1 wide_data) = Inl ShapeMismatch"
proof -
  have a: "arrays2 scenario 1 = column_array [0, 0] \<and>
      length (read1 scenario (RowOf 0 0)) = length [0, 0 :: rat]"
    by (simp add: scenario_def world_defs)
  have b: "length (read1 wide_weights (RowOf 0 0)) \<noteq> length (rows (arrays2 wide_weights 1))"
    by (simp add: wide_weights_def world_defs)
  have c: "rows (arrays2 wide_weights 0) \<noteq> [] \<and>
      (\<forall>r\<in>set (rows (arrays2 wide_weights 0)).
          length r \<noteq> length (rows (arrays2 wide_weights 1)))"
    by (simp add: wide_weights_def world_defs)
  have d: "0 < free2 wide_data \<and> 2 \<le> ncols (arrays2 wide_data 0) \<and>
      rows (arrays2 wide_data 0) \<noteq> [] \<and>
      (\<forall>r\<in>set (rows (arrays2 wide_data 0)). length r \<noteq> 2) \<and> (0::int) < 1"
    by (simp add: wide_data_def world_defs)
  from prediction_shape_errors [of scenario 1 "[0, 0]" "RowOf 0 0" 0 0 0 "1/10" 1 "\<lambda>u. (0, u)"] a
    prediction_shape_errors [of wide_weights 1 "[]" "RowOf 0 0" 0 0 0 "1/10" 1 "\<lambda>u. (0, u)"] b c
    prediction_shape_errors [of wide_data 0 "[]" "RowOf 0 0" 0 0 0 "1/10" 1 replay] d
  show ?thesis by simp
qed

subsection \<open>C5: the initial weights and bias\<close>

text \<open>
  The specification has the initial weights and bias depend on the seed alone. The bias
  does not: it is \<^verbatim>\<open>np.random.rand(1)[0] + x_max\<close>, and \<open>x_max\<close> is the largest first
  coordinate of the dataset. From the same generator state, the data \<open>(2, 1)\<close> start with
  the bias \<open>5/2\<close> and the data \<open>(1, 1)\<close> with \<open>3/2\<close>.
\<close>

theorem initial_bias_counterexample:
  "rng zero_weight = rng other_data \<and>
   fst (train_init replay 0 zero_weight) = Inr (1, 5/2) \<and>
   fst (train_init replay 0 other_data) = Inr (1, 3/2)"
  by (simp add: zero_weight_def other_data_def world_defs train_init_def column_def
        py_min_def py_max_def replay_def)

text \<open>
  C5, amended. From the same state of the generator, two calls of train on datasets that
  are not empty and have at least two columns start with the same weights, the first two
  numbers drawn, and leave the generator in the same state; the initial bias is the third
  number drawn plus the largest first coordinate of the dataset, so it depends on the
  dataset through that coordinate and is the same for two datasets that have the same
  largest first coordinate.
\<close>

theorem initial_weights_and_bias:
  assumes "rng w1 = rng w2"
    and "2 \<le> ncols (arrays2 w1 X1)" "rows (arrays2 w1 X1) \<noteq> []"
    and "2 \<le> ncols (arrays2 w2 X2)" "rows (arrays2 w2 X2) \<noteq> []"
  shows "\<exists>W1 b1 v1 W2 b2 v2.
           train_init rand X1 w1 = (Inr (W1, b1), v1) \<and>
           train_init rand X2 w2 = (Inr (W2, b2), v2) \<and>
           arrays2 v1 W1 = column_array (take 2 (fst (draws rand 3 (rng w1)))) \<and>
           arrays2 v2 W2 = arrays2 v1 W1 \<and>
           b1 = fst (draws rand 3 (rng w1)) ! 2 + Max (set (map (\<lambda>r. r ! 0) (rows (arrays2 w1 X1)))) \<and>
           b2 = fst (draws rand 3 (rng w1)) ! 2 + Max (set (map (\<lambda>r. r ! 0) (rows (arrays2 w2 X2)))) \<and>
           rng v1 = rng v2"
  using train_init_ok [OF assms(2,3), of rand] train_init_ok [OF assms(4,5), of rand] assms(1)
  by simp

theorem initial_weights_and_bias_witness:
  "\<exists>W1 b1 v1 W2 b2 v2.
     train_init replay 0 zero_weight = (Inr (W1, b1), v1) \<and>
     train_init replay 0 other_data = (Inr (W2, b2), v2) \<and>
     arrays2 v1 W1 = column_array [1/2, 1/2] \<and>
     arrays2 v2 W2 = arrays2 v1 W1 \<and>
     b1 = 1/2 + 2 \<and> b2 = 1/2 + 1 \<and> rng v1 = rng v2"
proof -
  have a: "rng zero_weight = rng other_data"
    "2 \<le> ncols (arrays2 zero_weight 0)" "rows (arrays2 zero_weight 0) \<noteq> []"
    "2 \<le> ncols (arrays2 other_data 0)" "rows (arrays2 other_data 0) \<noteq> []"
    by (simp_all add: zero_weight_def other_data_def world_defs)
  have d: "fst (draws replay 3 (rng zero_weight)) = [1/2, 1/2, 1/2]"
    by (simp add: zero_weight_def world_defs replay_def numeral_3_eq_3)
  have m: "Max (set (map (\<lambda>r. r ! 0) (rows (arrays2 zero_weight 0)))) = 2"
    "Max (set (map (\<lambda>r. r ! 0) (rows (arrays2 other_data 0)))) = 1"
    by (simp_all add: zero_weight_def other_data_def world_defs)
  from initial_weights_and_bias [OF a, of replay] show ?thesis
    unfolding d m by simp
qed

subsection \<open>C6: one line for each epoch\<close>

text \<open>
  The specification has train return \<open>num_epochs\<close> lines for every dataset. On a dataset
  without points it returns nothing: \<^verbatim>\<open>min(X.T[0])\<close> raises on the empty column, before
  the loop, also when \<open>num_epochs\<close> is 0.
\<close>

theorem train_empty_dataset_counterexample:
  "fst (trainPerceptronAlgorithm replay 0 0 (1/100) 0 no_data) = Inl EmptySequence"
  by (simp add: no_data_def world_defs trainPerceptronAlgorithm_def train_init_def column_def
        py_min_def)

text \<open>
  C6, amended. For every dataset that is not empty, of points with two coordinates, each
  with a label, every learning rate and every \<open>num_epochs\<close>, train calls step exactly
  \<open>num_epochs\<close> times in sequence and returns exactly \<open>num_epochs\<close> lines, the \<open>k\<close>-th being
  \<open>(-weights[0]/weights[1], -bias/weights[1])\<close> for the weights and bias after step \<open>k\<close>;
  with \<open>num_epochs = 0\<close> (or less) it returns the empty sequence and performs no step.
\<close>

theorem train_lines:
  assumes "X < free2 w" "ncols (arrays2 w X) = 2" "rows (arrays2 w X) \<noteq> []"
    and "\<forall>r\<in>set (rows (arrays2 w X)). length r = 2"
    and "length (rows (arrays2 w X)) \<le> length (arrays1 w y)"
  shows "\<exists>W b0 w0 lines bn w'.
           train_init rand X w = (Inr (W, b0), w0) \<and>
           trainPerceptronAlgorithm rand X y lr n w = (Inr lines, w') \<and>
           length lines = nat n \<and>
           epochs (nat n) X y W b0 lr w0 = (Inr (W, bn), w') \<and>
           (\<forall>k<nat n. \<exists>bk wk u0 u1.
              epochs (Suc k) X y W b0 lr w0 = (Inr (W, bk), wk) \<and>
              rows (arrays2 wk W) = [[u0], [u1]] \<and>
              lines ! k = ([np_div (- u0) u1], [np_div (- bk) u1])) \<and>
           (n \<le> 0 \<longrightarrow> lines = [] \<and> w' = w0)"
proof -
  from assms obtain W b0 w0 ws0 D where
    init: "train_init rand X w = (Inr (W, b0), w0)"
    and train: "\<And>n. trainPerceptronAlgorithm rand X y lr n w =
       (Inr (map (\<lambda>k. spec_line ((spec_epoch D lr ^^ Suc k) (ws0, b0))) [0..<nat n]),
        set_array2 W (column_array (fst ((spec_epoch D lr ^^ nat n) (ws0, b0)))) w0)"
    and ep: "\<And>k. epochs k X y W b0 lr w0 =
       (Inr (W, snd ((spec_epoch D lr ^^ k) (ws0, b0))),
        set_array2 W (column_array (fst ((spec_epoch D lr ^^ k) (ws0, b0)))) w0)"
    and len: "\<And>k. length (fst ((spec_epoch D lr ^^ k) (ws0, b0))) = 2"
    and W0: "arrays2 w0 W = column_array ws0"
    by (rule train_2d [of X w y rand lr]) blast
  let ?S = "\<lambda>k. (spec_epoch D lr ^^ k) (ws0, b0)"
  let ?lines = "map (\<lambda>k. spec_line (?S (Suc k))) [0..<nat n]"
  let ?w = "\<lambda>k. set_array2 W (column_array (fst (?S k))) w0"
  have each: "\<exists>bk wk u0 u1.
      epochs (Suc k) X y W b0 lr w0 = (Inr (W, bk), wk) \<and>
      rows (arrays2 wk W) = [[u0], [u1]] \<and>
      ?lines ! k = ([np_div (- u0) u1], [np_div (- bk) u1])" if k: "k < nat n" for k
  proof -
    obtain u0 u1 where u: "fst (?S (Suc k)) = [u0, u1]"
      using len [of "Suc k"] by (auto simp: length_Suc_conv numeral_2_eq_2)
    then have s: "?S (Suc k) = ([u0, u1], snd (?S (Suc k)))"
      by (metis prod.collapse)
    have "rows (arrays2 (?w (Suc k)) W) = [[u0], [u1]]"
      using u by (simp add: column_array_def)
    moreover have "?lines ! k = ([np_div (- u0) u1], [np_div (- snd (?S (Suc k))) u1])"
      using k spec_line_pair [of u0 u1 "snd (?S (Suc k))"] s by simp
    ultimately show ?thesis using ep [of "Suc k"] by blast
  qed
  have zero: "n \<le> 0 \<longrightarrow> ?lines = [] \<and> ?w (nat n) = w0"
    using W0 by simp
  show ?thesis
    using init train [of n] ep [of "nat n"] each zero
    by (intro exI [of _ W] exI [of _ b0] exI [of _ w0] exI [of _ ?lines]
          exI [of _ "snd (?S (nat n))"] exI [of _ "?w (nat n)"]) simp
qed

theorem train_lines_witness:
  "(\<exists>lines w'. trainPerceptronAlgorithm replay 0 0 (1/8) 2 other_data = (Inr lines, w') \<and>
      length lines = 2) \<and>
   trainPerceptronAlgorithm replay 0 0 (1/8) 0 other_data =
     (Inr [], snd (train_init replay 0 other_data))"
proof -
  have a: "0 < free2 other_data" "ncols (arrays2 other_data 0) = 2"
    "rows (arrays2 other_data 0) \<noteq> []"
    "\<forall>r\<in>set (rows (arrays2 other_data 0)). length r = 2"
    "length (rows (arrays2 other_data 0)) \<le> length (arrays1 other_data 0)"
    by (simp_all add: other_data_def world_defs)
  from train_lines [OF a, of replay "1/8" 2] train_lines [OF a, of replay "1/8" 0]
  show ?thesis by auto
qed

subsection \<open>C7: the prediction\<close>

text \<open>
  C7. For a point and a weight vector of the same length and any bias, predict returns 1 if
  the dot product of point and weights plus the bias is at least 0, and 0 otherwise; the
  result is 0 or 1, and the world after the call is the world before it.
\<close>

theorem prediction_threshold:
  assumes "arrays2 w W = column_array ws" "length (read1 w X) = length ws"
  shows "prediction X W b w =
           (Inr (if 0 \<le> sum_list (map2 (*) (read1 w X) ws) + b then 1 else 0), w) \<and>
         fst (prediction X W b w) \<in> {Inr 0, Inr 1}"
  using prediction_column [OF assms, of b] by (simp add: spec_predict_def)

theorem prediction_threshold_witness:
  "prediction (RowOf 0 1) 1 0 scenario = (Inr 1, scenario) \<and>
   prediction (RowOf 0 1) 1 (- 1) separated = (Inr 0, separated)"
  using prediction_threshold [of scenario 1 "[0, 0]" "RowOf 0 1" 0]
    prediction_threshold [of separated 1 "[1, 1]" "RowOf 0 1" "- 1"]
  by (simp add: scenario_def separated_def world_defs)

subsection \<open>C8: a step depends on its arguments only\<close>

text \<open>
  C8. Two calls of step in worlds that hold the same data, labels and weights at the
  addresses given, with the same bias and learning rate, have the same outcome (the same
  bias returned, or the same exception) and leave the same weights, whatever else the two
  worlds hold and whatever their generators are; the generator is not advanced.
\<close>

theorem perceptronStep_deterministic:
  assumes "arrays2 w1 X = arrays2 w2 X" "arrays1 w1 y = arrays1 w2 y" "arrays2 w1 W = arrays2 w2 W"
  shows "fst (perceptronStep X y W b lr w1) = fst (perceptronStep X y W b lr w2) \<and>
         arrays2 (snd (perceptronStep X y W b lr w1)) W =
           arrays2 (snd (perceptronStep X y W b lr w2)) W \<and>
         rng (snd (perceptronStep X y W b lr w1)) = rng w1 \<and>
         rng (snd (perceptronStep X y W b lr w2)) = rng w2"
proof -
  have "agree X y W w1 w2" using assms by (simp add: agree_def)
  from agree_perceptronStep [OF this, of b lr]
    perceptronStep_frame [of W w1 X y b lr] perceptronStep_frame [of W w2 X y b lr]
  show ?thesis by (simp add: agree_def frame_def)
qed

theorem perceptronStep_deterministic_witness:
  "arrays2 scenario 0 = arrays2 scenario_elsewhere 0 \<and>
   arrays1 scenario 0 = arrays1 scenario_elsewhere 0 \<and>
   arrays2 scenario 1 = arrays2 scenario_elsewhere 1 \<and>
   arrays2 scenario 5 \<noteq> arrays2 scenario_elsewhere 5 \<and>
   fst (perceptronStep 0 0 1 0 (1/10) scenario) =
     fst (perceptronStep 0 0 1 0 (1/10) scenario_elsewhere) \<and>
   arrays2 (snd (perceptronStep 0 0 1 0 (1/10) scenario)) 1 =
     arrays2 (snd (perceptronStep 0 0 1 0 (1/10) scenario_elsewhere)) 1"
  using perceptronStep_deterministic [of scenario 0 scenario_elsewhere 0 1 0 "1/10"]
  by (simp add: scenario_def scenario_elsewhere_def world_defs)

subsection \<open>C9: a step leaves the dataset alone\<close>

text \<open>
  C9. A call of step changes no array but the weights and never the generator, whether it
  returns or raises: every two-dimensional array at another address than \<^verbatim>\<open>W\<close> and every
  one-dimensional array is after the call what it was before. So the points and the
  labels, in their order, are unchanged whenever the weights are an array of their own.
\<close>

theorem perceptronStep_changes_weights_only:
  "(\<forall>a. a \<noteq> W \<longrightarrow> arrays2 (snd (perceptronStep X y W b lr w)) a = arrays2 w a) \<and>
   arrays1 (snd (perceptronStep X y W b lr w)) = arrays1 w \<and>
   rng (snd (perceptronStep X y W b lr w)) = rng w \<and>
   (X \<noteq> W \<longrightarrow> arrays2 (snd (perceptronStep X y W b lr w)) X = arrays2 w X \<and>
               arrays1 (snd (perceptronStep X y W b lr w)) y = arrays1 w y)"
  using perceptronStep_frame [of W w X y b lr] by (simp add: frame_def)

theorem perceptronStep_changes_weights_only_witness:
  "(0::addr) \<noteq> 1 \<and>
   arrays2 (snd (perceptronStep 0 0 1 0 (1/10) scenario)) 0 =
     \<lparr>ncols = 2, rows = [[1, 1], [- 1, - 1]]\<rparr> \<and>
   arrays1 (snd (perceptronStep 0 0 1 0 (1/10) scenario)) 0 = [1, 0]"
  using perceptronStep_changes_weights_only [of 1 0 0 0 "1/10" scenario]
  by (simp add: scenario_def world_defs)

subsection \<open>C10: a step writes rows 0 and 1 of the weights only\<close>

text \<open>
  C10. A call of step keeps the shape of the weights and writes no row of them but rows 0
  and 1: every \<open>weights[i]\<close> with \<open>i \<ge> 2\<close> is after the call what it was before, also when
  the point is misclassified and its coordinate \<open>i\<close> is not 0.
\<close>

theorem perceptronStep_writes_rows_0_1:
  "length (rows (arrays2 (snd (perceptronStep X y W b lr w)) W)) = length (rows (arrays2 w W)) \<and>
   (\<forall>i. 2 \<le> i \<longrightarrow>
      rows (arrays2 (snd (perceptronStep X y W b lr w)) W) ! i = rows (arrays2 w W) ! i)"
  using perceptronStep_frame [of W w X y b lr] by (simp add: frame_def)

theorem perceptronStep_writes_rows_0_1_witness:
  "(2::nat) \<le> 2 \<and> rows (arrays2 three_dims 0) ! 0 ! 2 \<noteq> 0 \<and>
   fst (prediction (RowOf 0 0) 1 0 three_dims) = Inr 0 \<and> arrays1 three_dims 0 ! 0 = 1 \<and>
   rows (arrays2 (snd (perceptronStep 0 0 1 0 (1/10) three_dims)) 1) ! 2 = [- 1]"
  using perceptronStep_writes_rows_0_1 [of 0 0 1 0 "1/10" three_dims]
  by (simp add: three_dims_def world_defs prediction_def matmul_def stepFunction_def upt_rec)

end
